theory Spec2Isabelle
  imports Main
begin

section \<open>JavaScript values used by the user controller\<close>

text \<open>
  The controller (the second document of \<^verbatim>\<open>playlist.services.ts\<close>: \<^verbatim>\<open>generateTokens\<close>,
  \<^verbatim>\<open>registerUser\<close>, \<^verbatim>\<open>loginUser\<close>, \<^verbatim>\<open>logoutUser\<close>, \<^verbatim>\<open>refreshAcessToken\<close>,
  \<^verbatim>\<open>changeCurrentPassword\<close>) reads request fields that may be absent. A field of
  \<^verbatim>\<open>req.body\<close> or \<^verbatim>\<open>req.cookies\<close> is a \<open>string option\<close>: \<open>None\<close> is
  \<^verbatim>\<open>undefined\<close>. Strings are lists of 8-bit code units.
\<close>

datatype json =
    JUndefined
  | JNull
  | JStr string
  | JNum nat
  | JObj "(string \<times> json) list"

text \<open>\<^verbatim>\<open>!v\<close> for a value that is a string or \<^verbatim>\<open>undefined\<close>: only \<^verbatim>\<open>undefined\<close> and
  the empty string are falsy.\<close>

definition truthy :: "string option \<Rightarrow> bool" where
  "truthy v = (case v of None \<Rightarrow> False | Some s \<Rightarrow> s \<noteq> [])"

text \<open>\<^verbatim>\<open>a || b\<close> on such values.\<close>

definition js_or :: "string option \<Rightarrow> string option \<Rightarrow> string option" where
  "js_or a b = (if truthy a then a else b)"

text \<open>The white space that \<^verbatim>\<open>String.prototype.trim\<close> strips, among the code units
  below 256: TAB, LF, VT, FF, CR, SPACE and NBSP.\<close>

definition is_ws :: "char \<Rightarrow> bool" where
  "is_ws c = ((of_char c :: nat) \<in> {9, 10, 11, 12, 13, 32, 160})"

definition trim :: "string \<Rightarrow> string" where
  "trim s = rev (dropWhile is_ws (rev (dropWhile is_ws s)))"

text \<open>\<^verbatim>\<open>String.prototype.toLowerCase\<close> on the code units below 256: the letters A to Z,
  and the Latin-1 capitals 0xC0 to 0xDE other than the multiplication sign 0xD7, move up
  by 32; every other code unit stays.\<close>

definition lower_char :: "char \<Rightarrow> char" where
  "lower_char c =
     (let n = (of_char c :: nat)
      in if (65 \<le> n \<and> n \<le> 90) \<or> (192 \<le> n \<and> n \<le> 222 \<and> n \<noteq> 215)
         then char_of (n + 32) else c)"

definition toLowerCase :: "string \<Rightarrow> string" where
  "toLowerCase s = map lower_char s"

section \<open>Errors\<close>

text \<open>
  \<open>ApiError code message\<close> is \<^verbatim>\<open>new ApiError(code, message)\<close>. The other constructors
  are what the runtime and the libraries throw: \<open>TypeError\<close> for a property read or a
  method call on \<^verbatim>\<open>undefined\<close>/\<^verbatim>\<open>null\<close>, \<open>JsonWebTokenError\<close> for a
  \<^verbatim>\<open>jwt.verify\<close> that rejects the token (bad signature, expired), \<open>BcryptError\<close>
  for a password comparison without data, \<open>StoreError\<close> for a write the document store
  rejects.
\<close>

datatype error =
    ApiError nat string
  | TypeError
  | JsonWebTokenError
  | BcryptError
  | StoreError

section \<open>The credential store\<close>

record user =
  user_id :: nat
  username :: string
  email :: string
  password :: string
  fullname :: string
  avatar :: string
  coverImage :: string
  refreshToken :: "string option"

text \<open>The state the handlers act on: the user collection in its natural order, and the
  local paths handed to the media host so far (each call of \<^verbatim>\<open>uploadOnCloudinary\<close>).\<close>

record state =
  users :: "user list"
  uploads :: "string option list"

record upload_response =
  url :: string

datatype jwt_result = VerifyThrows | Decoded "nat option"

text \<open>
  The collaborators whose code is outside the controller are parameters:
  \<^item> \<open>generateAccessToken\<close>, \<open>generateRefreshToken\<close>: the methods of the user document
    that sign a token (\<open>None\<close>: signing throws);
  \<^item> \<open>jwt_verify\<close>: \<^verbatim>\<open>jwt.verify(token, process.env.REFRESH_TOKEN_SECRET)\<close>, giving the
    \<^verbatim>\<open>_id\<close> of the decoded payload, or throwing;
  \<^item> \<open>bcrypt_hash\<close>, \<open>bcrypt_compare\<close>: the hash applied when a password is saved and
    the comparison behind \<^verbatim>\<open>isPasswordCorrect\<close>;
  \<^item> \<open>uploadOnCloudinary\<close>: the media host, giving a response that carries the hosted
    url, or \<^verbatim>\<open>null\<close>;
  \<^item> \<open>save_fails\<close>: whether the store rejects the write of a document;
  \<^item> \<open>omitUndefined\<close>: whether the object-document mapper drops a key whose value is
    \<^verbatim>\<open>undefined\<close> from an update before sending it (Mongoose 6 and later always do;
    Mongoose 5 wrote \<^verbatim>\<open>null\<close> unless the option of this name was set).
\<close>

record env =
  generateAccessToken :: "user \<Rightarrow> string option"
  generateRefreshToken :: "user \<Rightarrow> string option"
  jwt_verify :: "string \<Rightarrow> jwt_result"
  bcrypt_hash :: "string \<Rightarrow> string"
  bcrypt_compare :: "string \<Rightarrow> string \<Rightarrow> bool"
  uploadOnCloudinary :: "string option \<Rightarrow> upload_response option"
  save_fails :: "user \<Rightarrow> bool"
  omitUndefined :: bool

text \<open>Modelled from the spec: the user model (\<^verbatim>\<open>models/user.models.js\<close>) and the
  document store behind it are not part of the controller. \<^verbatim>\<open>User.findById(id)\<close> gives
  the document with that identity, \<^verbatim>\<open>null\<close> when there is none or the identity is
  \<^verbatim>\<open>undefined\<close>.\<close>

definition findById :: "user list \<Rightarrow> nat option \<Rightarrow> user option" where
  "findById us i = (case i of None \<Rightarrow> None | Some k \<Rightarrow> find (\<lambda>u. user_id u = k) us)"

text \<open>Modelled from the spec: \<^verbatim>\<open>User.findOne({ $or: [{ username }, { email }] })\<close>, the
  first document matching either identifier. Every user has a username and an email, so
  an identifier that is \<^verbatim>\<open>undefined\<close> matches no document.\<close>

definition findOne_or :: "user list \<Rightarrow> string option \<Rightarrow> string option \<Rightarrow> user option" where
  "findOne_or us un em = find (\<lambda>u. un = Some (username u) \<or> em = Some (email u)) us"

text \<open>Modelled from the spec: \<^verbatim>\<open>user.save({ validateBeforeSave: false })\<close> writes the
  document back over the stored one of the same identity; no validator runs.\<close>

definition save :: "user list \<Rightarrow> user \<Rightarrow> user list" where
  "save us u = map (\<lambda>v. if user_id v = user_id u then u else v) us"

text \<open>Modelled from the spec:
  \<^verbatim>\<open>User.findByIdAndUpdate(id, { $set: { refreshToken: v } })\<close> sets the field on the
  document of that identity. The handler that calls it passes \<^verbatim>\<open>undefined\<close> as the
  value, and the mapper casts an update before it sends it: with \<open>omitUndefined\<close> a key
  whose value is \<^verbatim>\<open>undefined\<close> is removed, which leaves an empty update and every
  document as it was; without it the field is written as \<^verbatim>\<open>null\<close>.\<close>

definition findByIdAndUpdate_set_refreshToken ::
  "env \<Rightarrow> user list \<Rightarrow> nat \<Rightarrow> string option \<Rightarrow> user list" where
  "findByIdAndUpdate_set_refreshToken C us i v =
     (if v = None \<and> omitUndefined C then us
      else map (\<lambda>u. if user_id u = i then u\<lparr>refreshToken := v\<rparr> else u) us)"

definition fresh_id :: "user list \<Rightarrow> nat" where
  "fresh_id us = Suc (fold max (map user_id us) 0)"

record new_user =
  nu_email :: "string option"
  nu_password :: "string option"
  nu_fullname :: "string option"
  nu_username :: string
  nu_avatar :: string
  nu_coverImage :: string

text \<open>Modelled from the spec: \<^verbatim>\<open>User.create\<close>. A user has an email, a password and a
  full name, and usernames and emails are unique, so the store rejects a document that
  lacks one of the three or repeats a username or an email. The password is hashed on
  save and the new document has no refresh token.\<close>

definition create :: "env \<Rightarrow> user list \<Rightarrow> new_user \<Rightarrow> error + user \<times> user list" where
  "create C us n =
     (case nu_email n of
        None \<Rightarrow> Inl StoreError
      | Some e \<Rightarrow>
          (case nu_password n of
             None \<Rightarrow> Inl StoreError
           | Some p \<Rightarrow>
               (case nu_fullname n of
                  None \<Rightarrow> Inl StoreError
                | Some f \<Rightarrow>
                    if list_ex (\<lambda>u. username u = nu_username n \<or> email u = e) us
                    then Inl StoreError
                    else
                      (let u = \<lparr>user_id = fresh_id us, username = nu_username n, email = e,
                                password = bcrypt_hash C p, fullname = f, avatar = nu_avatar n,
                                coverImage = nu_coverImage n, refreshToken = None\<rparr>
                       in if save_fails C u then Inl StoreError else Inr (u, us @ [u])))))"

text \<open>Modelled from the spec: \<^verbatim>\<open>user.isPasswordCorrect(password)\<close> compares the
  plaintext with the stored hash; the comparison rejects when there is no plaintext.\<close>

definition isPasswordCorrect :: "env \<Rightarrow> user \<Rightarrow> string option \<Rightarrow> error + bool" where
  "isPasswordCorrect C u p =
     (case p of None \<Rightarrow> Inl BcryptError | Some pw \<Rightarrow> Inr (bcrypt_compare C pw (password u)))"

text \<open>Modelled from the spec: the document as it is serialised, and
  \<^verbatim>\<open>.select("-password -refreshToken")\<close>, which leaves the named fields out.\<close>

definition toObject :: "user \<Rightarrow> (string \<times> json) list" where
  "toObject u =
     [(''_id'', JNum (user_id u)), (''username'', JStr (username u)),
      (''email'', JStr (email u)), (''fullname'', JStr (fullname u)),
      (''avatar'', JStr (avatar u)), (''coverImage'', JStr (coverImage u)),
      (''password'', JStr (password u))]
     @ (case refreshToken u of None \<Rightarrow> [] | Some t \<Rightarrow> [(''refreshToken'', JStr t)])"

definition select_minus :: "string list \<Rightarrow> (string \<times> json) list \<Rightarrow> (string \<times> json) list" where
  "select_minus excluded doc = filter (\<lambda>kv. fst kv \<notin> set excluded) doc"

definition sanitized :: "user option \<Rightarrow> json" where
  "sanitized r =
     (case r of None \<Rightarrow> JNull
      | Some u \<Rightarrow> JObj (select_minus [''password'', ''refreshToken''] (toObject u)))"

section \<open>Responses\<close>

record cookie_options =
  httpOnly :: bool
  secure :: bool

datatype cookie_op =
    SetCookie string json cookie_options
  | ClearCookie string cookie_options

text \<open>\<^verbatim>\<open>new ApiResponse(statusCode, data, message)\<close>, by its three arguments.\<close>

record api_response =
  statusCode :: nat
  data :: json
  message :: string

definition ApiResponse :: "nat \<Rightarrow> json \<Rightarrow> string \<Rightarrow> api_response" where
  "ApiResponse c d m = \<lparr>statusCode = c, data = d, message = m\<rparr>"

record response =
  status :: nat
  cookies :: "cookie_op list"
  body :: api_response

definition options :: cookie_options where
  "options = \<lparr>httpOnly = True, secure = True\<rparr>"

section \<open>Token issuing\<close>

text \<open>
  \<^verbatim>\<open>generateTokens\<close>: the whole body is inside \<^verbatim>\<open>try\<close>, and the \<^verbatim>\<open>catch\<close> throws
  \<^verbatim>\<open>ApiError(500, ...)\<close> for whatever was thrown: the \<open>TypeError\<close> of calling
  \<^verbatim>\<open>generateAccessToken\<close> on \<^verbatim>\<open>null\<close> when no user has the identity, a signing
  failure, a rejected save. The state changes only when all steps succeed.
\<close>

definition tokens_error :: error where
  "tokens_error = ApiError 500 ''something went wrong while generating tokens''"

definition generateTokens :: "env \<Rightarrow> nat \<Rightarrow> state \<Rightarrow> (error + string \<times> string) \<times> state" where
  "generateTokens C userId s =
     (case findById (users s) (Some userId) of
        None \<Rightarrow> (Inl tokens_error, s)
      | Some usr \<Rightarrow>
          (case generateAccessToken C usr of
             None \<Rightarrow> (Inl tokens_error, s)
           | Some accessToken \<Rightarrow>
               (case generateRefreshToken C usr of
                  None \<Rightarrow> (Inl tokens_error, s)
                | Some rt \<Rightarrow>
                    let usr' = usr\<lparr>refreshToken := Some rt\<rparr>
                    in if save_fails C usr' then (Inl tokens_error, s)
                       else (Inr (accessToken, rt), s\<lparr>users := save (users s) usr'\<rparr>))))"

section \<open>The session controller\<close>

subsection \<open>Register\<close>

record multer_file =
  path :: string

record files =
  files_avatar :: "multer_file list option"
  files_coverImage :: "multer_file list option"

record register_req =
  reg_username :: "string option"
  reg_email :: "string option"
  reg_password :: "string option"
  reg_fullname :: "string option"
  reg_files :: "files option"

text \<open>The guard of \<^verbatim>\<open>registerUser\<close>:
  \<^verbatim>\<open>[username, email, password, fullname].some((field) => field?.trim() === "")\<close>.
  For an absent field \<^verbatim>\<open>field?.trim()\<close> is \<^verbatim>\<open>undefined\<close>, which is not \<^verbatim>\<open>""\<close>.\<close>

definition some_blank :: "string option list \<Rightarrow> bool" where
  "some_blank fs = list_ex (\<lambda>field. map_option trim field = Some []) fs"

text \<open>\<^verbatim>\<open>req.files.avatar[0]?.path\<close> under \<^verbatim>\<open>req.files.avatar && req.files.avatar.length > 0\<close>,
  itself under \<^verbatim>\<open>if (req.files)\<close>; the variable stays \<^verbatim>\<open>undefined\<close> otherwise.\<close>

definition first_path :: "multer_file list option \<Rightarrow> string option" where
  "first_path fl = (case fl of None \<Rightarrow> None | Some [] \<Rightarrow> None | Some (f # _) \<Rightarrow> Some (path f))"

definition avatarLocalPath :: "register_req \<Rightarrow> string option" where
  "avatarLocalPath req =
     (case reg_files req of None \<Rightarrow> None | Some fs \<Rightarrow> first_path (files_avatar fs))"

definition coverImageLocalPath :: "register_req \<Rightarrow> string option" where
  "coverImageLocalPath req =
     (case reg_files req of None \<Rightarrow> None | Some fs \<Rightarrow> first_path (files_coverImage fs))"

text \<open>\<^verbatim>\<open>coverImage?.url || ""\<close>.\<close>

definition cover_url :: "upload_response option \<Rightarrow> string" where
  "cover_url r = (case r of None \<Rightarrow> [] | Some c \<Rightarrow> url c)"

text \<open>
  \<^verbatim>\<open>registerUser\<close>. Both uploads are awaited before the avatar's result is tested, so
  the state records both calls even when the handler then throws. The object handed to
  \<^verbatim>\<open>User.create\<close> holds \<^verbatim>\<open>username.toLowerCase()\<close>, a \<open>TypeError\<close> when the
  username is absent.
\<close>

definition registerUser :: "env \<Rightarrow> register_req \<Rightarrow> state \<Rightarrow> (error + response) \<times> state" where
  "registerUser C req s =
     (if some_blank [reg_username req, reg_email req, reg_password req, reg_fullname req]
      then (Inl (ApiError 400 ''All fields are required''), s)
      else
        (case findOne_or (users s) (reg_username req) (reg_email req) of
           Some existedUser \<Rightarrow> (Inl (ApiError 409 ''User already exists''), s)
         | None \<Rightarrow>
             if \<not> truthy (avatarLocalPath req)
             then (Inl (ApiError 400 ''Avatar is required''), s)
             else
               (let s1 = s\<lparr>uploads := uploads s @ [avatarLocalPath req, coverImageLocalPath req]\<rparr>
                in case uploadOnCloudinary C (avatarLocalPath req) of
                     None \<Rightarrow> (Inl (ApiError 500 ''Failed to upload avatar''), s1)
                   | Some av \<Rightarrow>
                       (case reg_username req of
                          None \<Rightarrow> (Inl TypeError, s1)
                        | Some un \<Rightarrow>
                            (case create C (users s1)
                                    \<lparr>nu_email = reg_email req, nu_password = reg_password req,
                                     nu_fullname = reg_fullname req,
                                     nu_username = toLowerCase un, nu_avatar = url av,
                                     nu_coverImage =
                                       cover_url (uploadOnCloudinary C (coverImageLocalPath req))\<rparr> of
                               Inl e \<Rightarrow> (Inl e, s1)
                             | Inr (u, us') \<Rightarrow>
                                 (case findById us' (Some (user_id u)) of
                                    None \<Rightarrow>
                                      (Inl (ApiError 500 ''Failed to create user''),
                                       s1\<lparr>users := us'\<rparr>)
                                  | Some createdUser \<Rightarrow>
                                      (Inr \<lparr>status = 201, cookies = [],
                                            body = ApiResponse 200 (sanitized (Some createdUser))
                                                     ''User created successfully''\<rparr>,
                                       s1\<lparr>users := us'\<rparr>)))))))"

subsection \<open>Login\<close>

record login_req =
  login_username :: "string option"
  login_email :: "string option"
  login_password :: "string option"

text \<open>
  \<^verbatim>\<open>loginUser\<close>. The password is truthy when \<^verbatim>\<open>isPasswordCorrect\<close> is called, and
  \<^verbatim>\<open>generateTokens\<close> is awaited: its tokens go into the cookies and the body.
\<close>

definition loginUser :: "env \<Rightarrow> login_req \<Rightarrow> state \<Rightarrow> (error + response) \<times> state" where
  "loginUser C req s =
     (if \<not> truthy (login_username req) \<and> \<not> truthy (login_email req)
      then (Inl (ApiError 400 ''either username or email is required''), s)
      else if \<not> truthy (login_password req)
      then (Inl (ApiError 400 ''password is required''), s)
      else
        (case findOne_or (users s) (login_username req) (login_email req) of
           None \<Rightarrow> (Inl (ApiError 404 ''User not found''), s)
         | Some existedUser \<Rightarrow>
             (case isPasswordCorrect C existedUser (login_password req) of
                Inl e \<Rightarrow> (Inl e, s)
              | Inr correct \<Rightarrow>
                  if \<not> correct then (Inl (ApiError 400 ''Invalid username or password''), s)
                  else
                    (case generateTokens C (user_id existedUser) s of
                       (Inl e, s') \<Rightarrow> (Inl e, s')
                     | (Inr (accessToken, rt), s') \<Rightarrow>
                         (Inr \<lparr>status = 200,
                               cookies = [SetCookie ''accessToken'' (JStr accessToken) options,
                                          SetCookie ''refreshToken'' (JStr rt) options],
                               body = ApiResponse 200
                                 (JObj [(''user'',
                                          sanitized (findById (users s') (Some (user_id existedUser)))),
                                        (''accessToken'', JStr accessToken),
                                        (''refreshToken'', JStr rt)])
                                 ''user logged in successfully''\<rparr>,
                          s')))))"

subsection \<open>Logout\<close>

text \<open>\<^verbatim>\<open>logoutUser\<close>, for the identity \<^verbatim>\<open>req.user._id\<close> that the authentication
  middleware has put on the request: the update sets \<^verbatim>\<open>refreshToken\<close> to
  \<^verbatim>\<open>undefined\<close>.\<close>

definition logoutUser :: "env \<Rightarrow> nat \<Rightarrow> state \<Rightarrow> (error + response) \<times> state" where
  "logoutUser C req_user_id s =
     (Inr \<lparr>status = 200,
           cookies = [ClearCookie ''accessToken'' options, ClearCookie ''refreshToken'' options],
           body = ApiResponse 200 (JObj []) ''User logged out successfully''\<rparr>,
      s\<lparr>users := findByIdAndUpdate_set_refreshToken C (users s) req_user_id None\<rparr>)"

subsection \<open>Refresh\<close>

record refresh_req =
  cookies_refreshToken :: "string option"
  body_refreshToken :: "string option"

text \<open>
  \<^verbatim>\<open>refreshAcessToken\<close>. \<^verbatim>\<open>jwt.verify\<close> is called outside any \<^verbatim>\<open>try\<close>, so its
  error leaves the handler as it is. The last step reads
  \<^verbatim>\<open>const { accessToken, refreshToken } = generateTokens(user._id)\<close> with no
  \<^verbatim>\<open>await\<close>: the two names are read off the promise, which has no such properties, so
  both are \<^verbatim>\<open>undefined\<close> in the cookies and in the body. The call itself still runs;
  the state returned is the one after it has settled, and its rejection, if any, reaches
  no handler.
\<close>

definition refreshAcessToken :: "env \<Rightarrow> refresh_req \<Rightarrow> state \<Rightarrow> (error + response) \<times> state" where
  "refreshAcessToken C req s =
     (let incomingRefreshToken = js_or (cookies_refreshToken req) (body_refreshToken req)
      in case incomingRefreshToken of
           None \<Rightarrow> (Inl (ApiError 400 ''Refresh token is required''), s)
         | Some tok \<Rightarrow>
             if tok = [] then (Inl (ApiError 400 ''Refresh token is required''), s)
             else
               (case jwt_verify C tok of
                  VerifyThrows \<Rightarrow> (Inl JsonWebTokenError, s)
                | Decoded decoded_id \<Rightarrow>
                    (case findById (users s) decoded_id of
                       None \<Rightarrow> (Inl (ApiError 400 ''Invalid refresh token''), s)
                     | Some usr \<Rightarrow>
                         if incomingRefreshToken \<noteq> refreshToken usr
                         then (Inl (ApiError 400 ''refresh token is expired or used''), s)
                         else
                           (let promise = generateTokens C (user_id usr) s;
                                accessToken = JUndefined;
                                rt = JUndefined
                            in (Inr \<lparr>status = 200,
                                      cookies = [SetCookie ''accessToken'' accessToken options,
                                                 SetCookie ''refreshToken'' rt options],
                                      body = ApiResponse 200
                                        (JObj [(''accessToken'', accessToken),
                                               (''refreshToken'', rt)])
                                        ''Access Token refreshed''\<rparr>,
                                snd promise)))))"

subsection \<open>Password change\<close>

record password_req =
  cp_user_id :: "nat option"
  cp_password :: "string option"
  cp_newPassword :: "string option"
  cp_confirmPassword :: "string option"

text \<open>
  \<^verbatim>\<open>changeCurrentPassword\<close>. \<^verbatim>\<open>newPassword.trim()\<close> is a \<open>TypeError\<close> when both
  passwords are absent (they are then equal), and so is \<^verbatim>\<open>user.isPasswordCorrect\<close>
  when no user has the identity. The new password is hashed as the document is saved.
\<close>

definition changeCurrentPassword ::
  "env \<Rightarrow> password_req \<Rightarrow> state \<Rightarrow> (error + response) \<times> state" where
  "changeCurrentPassword C req s =
     (if cp_newPassword req \<noteq> cp_confirmPassword req
      then (Inl (ApiError 400 ''New password and confirm password do not match''), s)
      else
        (case cp_newPassword req of
           None \<Rightarrow> (Inl TypeError, s)
         | Some newPassword \<Rightarrow>
             if trim newPassword = []
             then (Inl (ApiError 400 ''New password is required,cannot be empty''), s)
             else
               (case findById (users s) (cp_user_id req) of
                  None \<Rightarrow> (Inl TypeError, s)
                | Some usr \<Rightarrow>
                    (case isPasswordCorrect C usr (cp_password req) of
                       Inl e \<Rightarrow> (Inl e, s)
                     | Inr correct \<Rightarrow>
                         if \<not> correct then (Inl (ApiError 400 ''Invalid current password''), s)
                         else
                           (let usr' = usr\<lparr>password := bcrypt_hash C newPassword\<rparr>
                            in if save_fails C usr' then (Inl StoreError, s)
                               else
                                 (Inr \<lparr>status = 200, cookies = [],
                                       body = ApiResponse 200 (JObj [])
                                                ''Password changed successfully''\<rparr>,
                                  s\<lparr>users := save (users s) usr'\<rparr>))))))"

section \<open>The contract of the password hash\<close>

text \<open>Modelled from the spec: the hash is applied by the user model, which is not part
  of the controller. What the spec asks of it: a plaintext verifies against a stored
  hash exactly when it is the plaintext that was hashed.\<close>

definition hash_correct :: "env \<Rightarrow> bool" where
  "hash_correct C = (\<forall>p q. bcrypt_compare C p (bcrypt_hash C q) = (p = q))"

section \<open>A concrete environment and store\<close>

text \<open>
  An environment to run the handlers in: tokens name the user, a refresh token minted
  for a user who already holds one differs from the one held, verification accepts the
  refresh tokens of user 1, the hash prefixes the plaintext, an upload of a non-empty
  path succeeds, every write is accepted, and the mapper drops \<^verbatim>\<open>undefined\<close> from
  updates. \<open>legacy_env\<close> differs in the last point only.
\<close>

definition example_env :: env where
  "example_env =
     \<lparr>generateAccessToken = (\<lambda>u. Some (''at-'' @ username u)),
      generateRefreshToken =
        (\<lambda>u. Some (case refreshToken u of None \<Rightarrow> ''rt-'' @ username u | Some t \<Rightarrow> t @ ''+'')),
      jwt_verify = (\<lambda>t. if take 6 t = ''rt-ava'' then Decoded (Some 1) else VerifyThrows),
      bcrypt_hash = (\<lambda>p. ''$2b$'' @ p),
      bcrypt_compare = (\<lambda>p h. h = ''$2b$'' @ p),
      uploadOnCloudinary =
        (\<lambda>p. case p of None \<Rightarrow> None
             | Some l \<Rightarrow> if l = [] then None else Some \<lparr>url = ''https://media'' @ l\<rparr>),
      save_fails = (\<lambda>u. False),
      omitUndefined = True\<rparr>"

definition legacy_env :: env where
  "legacy_env = example_env\<lparr>omitUndefined := False\<rparr>"

definition ava :: user where
  "ava = \<lparr>user_id = 1, username = ''ava'', email = ''a@x.com'', password = ''$2b$p1'',
          fullname = ''Ava A'', avatar = ''https://media/tmp/a.png'', coverImage = [],
          refreshToken = None\<rparr>"

definition s0 :: state where
  "s0 = \<lparr>users = [ava], uploads = []\<rparr>"

text \<open>The store once \<open>ava\<close> has logged in: she holds the refresh token \<open>rt-ava\<close>.\<close>

definition s_logged_in :: state where
  "s_logged_in = \<lparr>users = [ava\<lparr>refreshToken := Some ''rt-ava''\<rparr>], uploads = []\<rparr>"

definition login_ava :: login_req where
  "login_ava = \<lparr>login_username = Some ''ava'', login_email = None, login_password = Some ''p1''\<rparr>"

definition refresh_ava :: refresh_req where
  "refresh_ava = \<lparr>cookies_refreshToken = Some ''rt-ava'', body_refreshToken = None\<rparr>"

definition register_bob :: register_req where
  "register_bob =
     \<lparr>reg_username = Some ''Bob'', reg_email = Some ''b@x.com'', reg_password = Some ''pw'',
      reg_fullname = Some ''Bob B'',
      reg_files = Some \<lparr>files_avatar = Some [\<lparr>path = ''/tmp/b.png''\<rparr>],
                        files_coverImage = None\<rparr>\<rparr>"

text \<open>Registrations that trip over the guard or slip past it: one with a password of
  blanks under a username that is taken, one with no password at all under an email
  that is taken, one with no password and no files.\<close>

definition register_blank_password :: register_req where
  "register_blank_password =
     register_bob\<lparr>reg_username := Some ''ava'', reg_password := Some ''   ''\<rparr>"

definition register_no_password :: register_req where
  "register_no_password = register_bob\<lparr>reg_email := Some ''a@x.com'', reg_password := None\<rparr>"

definition register_no_password_no_files :: register_req where
  "register_no_password_no_files = register_bob\<lparr>reg_password := None, reg_files := None\<rparr>"

text \<open>The registration of \<open>register_bob\<close> with the password left out of the body, all
  else as it was: free identifiers and an avatar file.\<close>

definition register_bob_no_password :: register_req where
  "register_bob_no_password = register_bob\<lparr>reg_password := None\<rparr>"

text \<open>Logins that fail: a wrong password for \<open>ava\<close>, and a username nobody has.\<close>

definition login_wrong_password :: login_req where
  "login_wrong_password = login_ava\<lparr>login_password := Some ''p2''\<rparr>"

definition login_unknown :: login_req where
  "login_unknown = login_ava\<lparr>login_username := Some ''zoe''\<rparr>"

text \<open>The answer to \<open>login_ava\<close> on \<open>s0\<close>.\<close>

definition login_ava_response :: response where
  "login_ava_response =
     \<lparr>status = 200,
      cookies = [SetCookie ''accessToken'' (JStr ''at-ava'') \<lparr>httpOnly = True, secure = True\<rparr>,
                 SetCookie ''refreshToken'' (JStr ''rt-ava'') \<lparr>httpOnly = True, secure = True\<rparr>],
      body = \<lparr>statusCode = 200,
              data = JObj [(''user'',
                            JObj [(''_id'', JNum 1), (''username'', JStr ''ava''),
                                  (''email'', JStr ''a@x.com''), (''fullname'', JStr ''Ava A''),
                                  (''avatar'', JStr ''https://media/tmp/a.png''),
                                  (''coverImage'', JStr [])]),
                           (''accessToken'', JStr ''at-ava''),
                           (''refreshToken'', JStr ''rt-ava'')],
              message = ''user logged in successfully''\<rparr>\<rparr>"

text \<open>Refresh requests: one with no token at all, one with a token that does not verify;
  and a store with no user, where the token of \<open>ava\<close> verifies but finds nobody.\<close>

definition refresh_none :: refresh_req where
  "refresh_none = \<lparr>cookies_refreshToken = None, body_refreshToken = Some []\<rparr>"

definition refresh_bogus :: refresh_req where
  "refresh_bogus = \<lparr>cookies_refreshToken = None, body_refreshToken = Some ''bogus''\<rparr>"

definition s_empty :: state where
  "s_empty = \<lparr>users = [], uploads = []\<rparr>"

text \<open>What a refresh answers when it gets through all its checks.\<close>

definition refresh_response :: response where
  "refresh_response =
     \<lparr>status = 200,
      cookies = [SetCookie ''accessToken'' JUndefined \<lparr>httpOnly = True, secure = True\<rparr>,
                 SetCookie ''refreshToken'' JUndefined \<lparr>httpOnly = True, secure = True\<rparr>],
      body = \<lparr>statusCode = 200,
              data = JObj [(''accessToken'', JUndefined), (''refreshToken'', JUndefined)],
              message = ''Access Token refreshed''\<rparr>\<rparr>"

text \<open>Password changes for \<open>ava\<close>, whose password is \<open>p1\<close>: to \<open>p2\<close> with a
  confirmation that differs, to \<open>p2\<close>, to blanks, and to \<open>p1\<close> again.\<close>

definition change_mismatch :: password_req where
  "change_mismatch =
     \<lparr>cp_user_id = Some 1, cp_password = Some ''p1'', cp_newPassword = Some ''p2'',
      cp_confirmPassword = Some ''p3''\<rparr>"

definition change_ok :: password_req where
  "change_ok = change_mismatch\<lparr>cp_confirmPassword := Some ''p2''\<rparr>"

definition change_blank :: password_req where
  "change_blank = change_mismatch\<lparr>cp_newPassword := Some ''  '', cp_confirmPassword := Some ''  ''\<rparr>"

definition change_same :: password_req where
  "change_same = change_mismatch\<lparr>cp_newPassword := Some ''p1'', cp_confirmPassword := Some ''p1''\<rparr>"

definition change_response :: response where
  "change_response =
     \<lparr>status = 200, cookies = [],
      body = \<lparr>statusCode = 200, data = JObj [], message = ''Password changed successfully''\<rparr>\<rparr>"

text \<open>A registration that brings a cover image as well, and an environment whose media
  host takes the avatar of that request and nothing else; one whose media host takes
  nothing.\<close>

definition register_bob_cover :: register_req where
  "register_bob_cover =
     register_bob\<lparr>reg_files := Some \<lparr>files_avatar = Some [\<lparr>path = ''/tmp/b.png''\<rparr>],
                                      files_coverImage = Some [\<lparr>path = ''/tmp/c.png''\<rparr>]\<rparr>\<rparr>"

definition cover_fails_env :: env where
  "cover_fails_env =
     example_env\<lparr>uploadOnCloudinary :=
       (\<lambda>p. if p = Some ''/tmp/b.png'' then Some \<lparr>url = ''https://media/tmp/b.png''\<rparr> else None)\<rparr>"

definition offline_env :: env where
  "offline_env = example_env\<lparr>uploadOnCloudinary := (\<lambda>p. None)\<rparr>"

section \<open>Facts about the store\<close>

lemma findById_save:
  "findById us (Some (user_id u)) \<noteq> None \<Longrightarrow> findById (save us u) (Some (user_id u)) = Some u"
  by (induction us) (auto simp: findById_def save_def)

lemma findById_user_id: "findById us (Some k) = Some u \<Longrightarrow> user_id u = k"
  by (auto simp: findById_def find_Some_iff)

lemma generateTokens_error:
  "generateTokens C userId s = (Inl e, s') \<Longrightarrow> e = tokens_error \<and> s' = s"
  by (auto simp: generateTokens_def Let_def split: option.splits if_splits)

section \<open>Token issuing: what \<^verbatim>\<open>generateTokens\<close> does\<close>

text \<open>
  C3, as stated, at a user identity that no record has: the spec asks for a
  \<open>NotFoundError\<close> (status 404). \<^verbatim>\<open>generateTokens\<close> has no such branch: the lookup
  gives \<^verbatim>\<open>null\<close>, the call of \<^verbatim>\<open>generateAccessToken\<close> on it throws inside the
  \<^verbatim>\<open>try\<close>, and the \<^verbatim>\<open>catch\<close> throws the status-500 error.
\<close>

theorem generateTokens_missing_user_counterexample:
  "findById (users s0) (Some 7) = None
   \<and> fst (generateTokens example_env 7 s0) =
       Inl (ApiError 500 ''something went wrong while generating tokens'')"
  by (simp add: generateTokens_def findById_def s0_def ava_def tokens_error_def)

text \<open>
  C3, amended. For a user identity that no record has, \<^verbatim>\<open>generateTokens\<close> fails with
  the internal error (status 500, "something went wrong while generating tokens") and
  leaves the store as it was. When the lookup finds the user, both tokens are signed and
  the store accepts the write, it returns the two tokens and the user's record now holds
  the refresh token, all its other fields as before. Every failure is that same
  status-500 error with the store unchanged, and it fails exactly when the lookup finds
  nobody, a signing step fails, or the write is rejected.
\<close>

theorem generateTokens_contract:
  "(findById (users s) (Some userId) = None \<longrightarrow>
      generateTokens C userId s =
        (Inl (ApiError 500 ''something went wrong while generating tokens''), s))
   \<and> (\<forall>usr accessToken rt.
        findById (users s) (Some userId) = Some usr
        \<and> generateAccessToken C usr = Some accessToken
        \<and> generateRefreshToken C usr = Some rt
        \<and> \<not> save_fails C (usr\<lparr>refreshToken := Some rt\<rparr>) \<longrightarrow>
          generateTokens C userId s =
            (Inr (accessToken, rt), s\<lparr>users := save (users s) (usr\<lparr>refreshToken := Some rt\<rparr>)\<rparr>)
          \<and> findById (users (snd (generateTokens C userId s))) (Some userId) =
              Some (usr\<lparr>refreshToken := Some rt\<rparr>))
   \<and> (\<forall>e s'. generateTokens C userId s = (Inl e, s') \<longrightarrow>
          e = ApiError 500 ''something went wrong while generating tokens'' \<and> s' = s)
   \<and> (isl (fst (generateTokens C userId s)) \<longleftrightarrow>
        (case findById (users s) (Some userId) of
           None \<Rightarrow> True
         | Some usr \<Rightarrow>
             generateAccessToken C usr = None
             \<or> (case generateRefreshToken C usr of
                   None \<Rightarrow> True
                 | Some rt \<Rightarrow> save_fails C (usr\<lparr>refreshToken := Some rt\<rparr>))))"
proof (intro conjI allI impI)
  assume "findById (users s) (Some userId) = None"
  then show "generateTokens C userId s =
        (Inl (ApiError 500 ''something went wrong while generating tokens''), s)"
    by (simp add: generateTokens_def tokens_error_def)
next
  fix usr accessToken rt
  assume h: "findById (users s) (Some userId) = Some usr
        \<and> generateAccessToken C usr = Some accessToken
        \<and> generateRefreshToken C usr = Some rt
        \<and> \<not> save_fails C (usr\<lparr>refreshToken := Some rt\<rparr>)"
  then show g: "generateTokens C userId s =
            (Inr (accessToken, rt), s\<lparr>users := save (users s) (usr\<lparr>refreshToken := Some rt\<rparr>)\<rparr>)"
    by (simp add: generateTokens_def)
  from h have "user_id usr = userId"
    by (auto dest: findById_user_id)
  with h have "findById (save (users s) (usr\<lparr>refreshToken := Some rt\<rparr>)) (Some userId) =
      Some (usr\<lparr>refreshToken := Some rt\<rparr>)"
    using findById_save [of "users s" "usr\<lparr>refreshToken := Some rt\<rparr>"] by simp
  with g show "findById (users (snd (generateTokens C userId s))) (Some userId) =
              Some (usr\<lparr>refreshToken := Some rt\<rparr>)"
    by simp
next
  fix e s'
  assume "generateTokens C userId s = (Inl e, s')"
  then show "e = ApiError 500 ''something went wrong while generating tokens''" and "s' = s"
    using generateTokens_error [of C userId s e s'] by (simp_all add: tokens_error_def)
next
  show "isl (fst (generateTokens C userId s)) \<longleftrightarrow>
        (case findById (users s) (Some userId) of
           None \<Rightarrow> True
         | Some usr \<Rightarrow>
             generateAccessToken C usr = None
             \<or> (case generateRefreshToken C usr of
                   None \<Rightarrow> True
                 | Some rt \<Rightarrow> save_fails C (usr\<lparr>refreshToken := Some rt\<rparr>)))"
    by (auto simp: generateTokens_def Let_def split: option.splits)
qed

theorem generateTokens_contract_witness:
  "generateTokens example_env 7 s0 =
     (Inl (ApiError 500 ''something went wrong while generating tokens''), s0)
   \<and> generateTokens example_env 1 s0 = (Inr (''at-ava'', ''rt-ava''), s_logged_in)
   \<and> findById (users (snd (generateTokens example_env 1 s0))) (Some 1) =
       Some (ava\<lparr>refreshToken := Some ''rt-ava''\<rparr>)"
proof -
  have a: "findById (users s0) (Some 7) = None"
    by (simp add: findById_def s0_def ava_def)
  have b: "findById (users s0) (Some 1) = Some ava
        \<and> generateAccessToken example_env ava = Some ''at-ava''
        \<and> generateRefreshToken example_env ava = Some ''rt-ava''
        \<and> \<not> save_fails example_env (ava\<lparr>refreshToken := Some ''rt-ava''\<rparr>)"
    by (simp add: findById_def s0_def ava_def example_env_def)
  have c: "s0\<lparr>users := save (users s0) (ava\<lparr>refreshToken := Some ''rt-ava''\<rparr>)\<rparr> = s_logged_in"
    by (simp add: s0_def s_logged_in_def save_def ava_def)
  from generateTokens_contract [of s0 7 example_env] a
  have 1: "generateTokens example_env 7 s0 =
     (Inl (ApiError 500 ''something went wrong while generating tokens''), s0)"
    by blast
  from generateTokens_contract [of s0 1 example_env] b
  have 2: "generateTokens example_env 1 s0 =
            (Inr (''at-ava'', ''rt-ava''),
             s0\<lparr>users := save (users s0) (ava\<lparr>refreshToken := Some ''rt-ava''\<rparr>)\<rparr>)
          \<and> findById (users (snd (generateTokens example_env 1 s0))) (Some 1) =
              Some (ava\<lparr>refreshToken := Some ''rt-ava''\<rparr>)"
    by blast
  from 1 2 show ?thesis unfolding c by blast
qed

section \<open>Register: the blank-field guard\<close>

text \<open>
  C4, on the code: a registration with free identifiers and an avatar file whose
  \<^verbatim>\<open>password\<close> is absent from the body. The spec requires all four text fields and
  has the request rejected with the validation error before any duplicate check, upload
  or user creation, and the guard's own message reads "All fields are required". The
  guard does not fire: the handler runs the duplicate check and hands both local paths
  to the media host, and the request is stopped only by the store, with the store's
  error and not with the status-400 validation error.
\<close>

theorem registerUser_absent_password_not_validated:
  "reg_password register_bob_no_password = None
   \<and> \<not> some_blank [reg_username register_bob_no_password, reg_email register_bob_no_password,
                    reg_password register_bob_no_password,
                    reg_fullname register_bob_no_password]
   \<and> registerUser example_env register_bob_no_password s0 =
       (Inl StoreError, \<lparr>users = [ava], uploads = [Some ''/tmp/b.png'', None]\<rparr>)
   \<and> fst (registerUser example_env register_bob_no_password s0) \<noteq>
       Inl (ApiError 400 ''All fields are required'')"
proof -
  have l: "toLowerCase ''Bob'' = ''bob''"
    by code_simp
  show ?thesis
    unfolding register_bob_no_password_def register_bob_def
    by (simp add: registerUser_def some_blank_def trim_def is_ws_def findOne_or_def
        truthy_def avatarLocalPath_def coverImageLocalPath_def first_path_def create_def
        cover_url_def l s0_def ava_def example_env_def)
qed

text \<open>
  A registration in which one of the four text fields \<^verbatim>\<open>username\<close>, \<^verbatim>\<open>email\<close>,
  \<^verbatim>\<open>password\<close>, \<^verbatim>\<open>fullname\<close> is present and blank after trimming is rejected
  with the validation error (status 400, "All fields are required"), whatever the store
  holds, so before the duplicate check; the state is returned as it was: no upload has
  been made and no user created.
\<close>

theorem registerUser_blank_field_rejected:
  assumes "field \<in> {reg_username req, reg_email req, reg_password req, reg_fullname req}"
    and "field = Some v"
    and "trim v = []"
  shows "registerUser C req s = (Inl (ApiError 400 ''All fields are required''), s)"
proof -
  from assms have "some_blank [reg_username req, reg_email req, reg_password req, reg_fullname req]"
    by (auto simp: some_blank_def)
  then show ?thesis
    by (simp add: registerUser_def)
qed

theorem registerUser_blank_field_rejected_witness:
  "reg_password register_blank_password = Some ''   ''
   \<and> trim ''   '' = []
   \<and> findOne_or (users s0) (reg_username register_blank_password)
        (reg_email register_blank_password) = Some ava
   \<and> registerUser example_env register_blank_password s0 =
       (Inl (ApiError 400 ''All fields are required''), s0)"
proof -
  have p: "reg_password register_blank_password = Some ''   ''"
    by (simp add: register_blank_password_def register_bob_def)
  have t: "trim ''   '' = []"
    by (simp add: trim_def is_ws_def)
  have m: "Some ''   '' \<in> {reg_username register_blank_password,
      reg_email register_blank_password, reg_password register_blank_password,
      reg_fullname register_blank_password}"
    by (simp add: p)
  have d: "findOne_or (users s0) (reg_username register_blank_password)
        (reg_email register_blank_password) = Some ava"
    by (simp add: findOne_or_def s0_def ava_def register_blank_password_def register_bob_def)
  from registerUser_blank_field_rejected [OF m refl t, of example_env s0] p t d
  show ?thesis by simp
qed

text \<open>
  C10. A registration whose \<^verbatim>\<open>password\<close> is absent from the body is not stopped by
  the guard: \<^verbatim>\<open>field?.trim()\<close> is \<^verbatim>\<open>undefined\<close> for it, which is not the empty
  string. The handler goes on to the steps after the guard with the field missing: it
  answers "User already exists" when the email is taken, and "Avatar is required" when
  the identifiers are free and no file came with the request.
\<close>

theorem registerUser_absent_field_passes_guard:
  "reg_password register_no_password = None
   \<and> \<not> some_blank [reg_username register_no_password, reg_email register_no_password,
                    reg_password register_no_password, reg_fullname register_no_password]
   \<and> registerUser example_env register_no_password s0 =
       (Inl (ApiError 409 ''User already exists''), s0)
   \<and> reg_password register_no_password_no_files = None
   \<and> registerUser example_env register_no_password_no_files s0 =
       (Inl (ApiError 400 ''Avatar is required''), s0)"
  by (simp add: registerUser_def some_blank_def trim_def is_ws_def findOne_or_def
      register_no_password_def register_no_password_no_files_def register_bob_def
      s0_def ava_def truthy_def avatarLocalPath_def)

section \<open>Login\<close>

lemma generateTokens_success:
  assumes "generateTokens C userId s = (Inr (accessToken, rt), s')"
  shows "\<exists>usr. findById (users s) (Some userId) = Some usr
           \<and> generateAccessToken C usr = Some accessToken
           \<and> generateRefreshToken C usr = Some rt
           \<and> s' = s\<lparr>users := save (users s) (usr\<lparr>refreshToken := Some rt\<rparr>)\<rparr>
           \<and> findById (users s') (Some userId) = Some (usr\<lparr>refreshToken := Some rt\<rparr>)"
proof -
  from assms obtain usr where u: "findById (users s) (Some userId) = Some usr"
    and a: "generateAccessToken C usr = Some accessToken"
    and r: "generateRefreshToken C usr = Some rt"
    and s': "s' = s\<lparr>users := save (users s) (usr\<lparr>refreshToken := Some rt\<rparr>)\<rparr>"
    by (auto simp: generateTokens_def Let_def split: option.splits if_splits)
  from u have "user_id usr = userId"
    by (rule findById_user_id)
  with u have "findById (save (users s) (usr\<lparr>refreshToken := Some rt\<rparr>)) (Some userId) =
      Some (usr\<lparr>refreshToken := Some rt\<rparr>)"
    using findById_save [of "users s" "usr\<lparr>refreshToken := Some rt\<rparr>"] by simp
  with u a r s' show ?thesis by simp
qed

lemma sanitized_Some:
  "sanitized (Some u) =
     JObj [(''_id'', JNum (user_id u)), (''username'', JStr (username u)),
           (''email'', JStr (email u)), (''fullname'', JStr (fullname u)),
           (''avatar'', JStr (avatar u)), (''coverImage'', JStr (coverImage u))]"
  by (simp add: sanitized_def select_minus_def toObject_def split: option.splits)

text \<open>
  C5, as stated, at a login of an existing user with a wrong password: the spec quotes
  the message as "invalid username or password"; the error the handler throws carries
  "Invalid username or password".
\<close>

theorem loginUser_message_counterexample:
  "findOne_or (users s0) (login_username login_wrong_password)
      (login_email login_wrong_password) = Some ava
   \<and> isPasswordCorrect example_env ava (login_password login_wrong_password) = Inr False
   \<and> fst (loginUser example_env login_wrong_password s0) =
       Inl (ApiError 400 ''Invalid username or password'')
   \<and> ApiError 400 ''Invalid username or password'' \<noteq>
       ApiError 400 ''invalid username or password''"
  by (simp add: loginUser_def findOne_or_def isPasswordCorrect_def truthy_def
      login_wrong_password_def login_ava_def s0_def ava_def example_env_def)

text \<open>
  C5, amended. For a login with at least one identifier and a password: when no user
  matches either identifier the handler fails with the not-found error (status 404,
  "User not found"); when a user matches and the password does not verify against the
  stored hash it fails with the authentication error (status 400) whose message is
  "Invalid username or password". The two errors differ, and neither path changes the
  store.
\<close>

theorem loginUser_failure_paths:
  assumes "truthy (login_username req) \<or> truthy (login_email req)"
    and "truthy (login_password req)"
  shows "(findOne_or (users s) (login_username req) (login_email req) = None \<longrightarrow>
            loginUser C req s = (Inl (ApiError 404 ''User not found''), s))
       \<and> (\<forall>u. findOne_or (users s) (login_username req) (login_email req) = Some u
              \<and> isPasswordCorrect C u (login_password req) = Inr False \<longrightarrow>
            loginUser C req s = (Inl (ApiError 400 ''Invalid username or password''), s))
       \<and> ApiError 404 ''User not found'' \<noteq> ApiError 400 ''Invalid username or password''"
  using assms by (auto simp: loginUser_def)

theorem loginUser_failure_paths_witness:
  "loginUser example_env login_unknown s0 = (Inl (ApiError 404 ''User not found''), s0)
   \<and> loginUser example_env login_wrong_password s0 =
       (Inl (ApiError 400 ''Invalid username or password''), s0)"
proof -
  have i: "truthy (login_username login_unknown) \<or> truthy (login_email login_unknown)"
    "truthy (login_username login_wrong_password) \<or> truthy (login_email login_wrong_password)"
    by (simp_all add: truthy_def login_unknown_def login_wrong_password_def login_ava_def)
  have p: "truthy (login_password login_unknown)" "truthy (login_password login_wrong_password)"
    by (simp_all add: truthy_def login_unknown_def login_wrong_password_def login_ava_def)
  have n: "findOne_or (users s0) (login_username login_unknown) (login_email login_unknown) = None"
    by (simp add: findOne_or_def login_unknown_def login_ava_def s0_def ava_def)
  have w: "findOne_or (users s0) (login_username login_wrong_password)
        (login_email login_wrong_password) = Some ava
      \<and> isPasswordCorrect example_env ava (login_password login_wrong_password) = Inr False"
    by (simp add: findOne_or_def isPasswordCorrect_def login_wrong_password_def login_ava_def
        s0_def ava_def example_env_def)
  from loginUser_failure_paths [OF i(1) p(1), of s0 example_env] n
  have 1: "loginUser example_env login_unknown s0 = (Inl (ApiError 404 ''User not found''), s0)"
    by blast
  from loginUser_failure_paths [OF i(2) p(2), of s0 example_env] w
  have 2: "loginUser example_env login_wrong_password s0 =
       (Inl (ApiError 400 ''Invalid username or password''), s0)"
    by blast
  from 1 2 show ?thesis by blast
qed

text \<open>
  C6. Every successful login answers with status 200, sets the cookies
  \<^verbatim>\<open>accessToken\<close> and \<^verbatim>\<open>refreshToken\<close>, both HTTP-only and secure, to the two tokens
  that \<^verbatim>\<open>generateTokens\<close> issued for the user matching the credentials, and returns
  in the body both tokens and the user's document reduced to \<^verbatim>\<open>_id\<close>,
  \<^verbatim>\<open>username\<close>, \<^verbatim>\<open>email\<close>, \<^verbatim>\<open>fullname\<close>, \<^verbatim>\<open>avatar\<close> and \<^verbatim>\<open>coverImage\<close>:
  neither \<^verbatim>\<open>password\<close> nor \<^verbatim>\<open>refreshToken\<close> is a key of it. The refresh token
  returned is the one the user's record now holds.
\<close>

theorem loginUser_success_response:
  assumes "loginUser C req s = (Inr resp, s')"
  shows "\<exists>existedUser usr accessToken rt doc.
           findOne_or (users s) (login_username req) (login_email req) = Some existedUser
         \<and> generateTokens C (user_id existedUser) s = (Inr (accessToken, rt), s')
         \<and> findById (users s') (Some (user_id existedUser)) = Some usr
         \<and> refreshToken usr = Some rt
         \<and> status resp = 200
         \<and> cookies resp =
             [SetCookie ''accessToken'' (JStr accessToken) \<lparr>httpOnly = True, secure = True\<rparr>,
              SetCookie ''refreshToken'' (JStr rt) \<lparr>httpOnly = True, secure = True\<rparr>]
         \<and> body resp =
             ApiResponse 200
               (JObj [(''user'', JObj doc), (''accessToken'', JStr accessToken),
                      (''refreshToken'', JStr rt)])
               ''user logged in successfully''
         \<and> doc = [(''_id'', JNum (user_id usr)), (''username'', JStr (username usr)),
                  (''email'', JStr (email usr)), (''fullname'', JStr (fullname usr)),
                  (''avatar'', JStr (avatar usr)), (''coverImage'', JStr (coverImage usr))]
         \<and> ''password'' \<notin> fst ` set doc
         \<and> ''refreshToken'' \<notin> fst ` set doc"
proof -
  from assms obtain existedUser accessToken rt where
    f: "findOne_or (users s) (login_username req) (login_email req) = Some existedUser"
    and g: "generateTokens C (user_id existedUser) s = (Inr (accessToken, rt), s')"
    and r: "resp = \<lparr>status = 200,
              cookies = [SetCookie ''accessToken'' (JStr accessToken) options,
                         SetCookie ''refreshToken'' (JStr rt) options],
              body = ApiResponse 200
                (JObj [(''user'', sanitized (findById (users s') (Some (user_id existedUser)))),
                       (''accessToken'', JStr accessToken), (''refreshToken'', JStr rt)])
                ''user logged in successfully''\<rparr>"
    by (auto simp: loginUser_def split: if_splits option.splits sum.splits prod.splits)
  from generateTokens_success [OF g] obtain u0 where
    u: "findById (users s') (Some (user_id existedUser)) = Some (u0\<lparr>refreshToken := Some rt\<rparr>)"
    by blast
  show ?thesis
    using f g r u by (simp add: sanitized_Some options_def)
qed

theorem loginUser_success_response_witness:
  "loginUser example_env login_ava s0 = (Inr login_ava_response, s_logged_in)
   \<and> (\<exists>existedUser usr accessToken rt doc.
           findOne_or (users s0) (login_username login_ava) (login_email login_ava) =
             Some existedUser
         \<and> generateTokens example_env (user_id existedUser) s0 =
             (Inr (accessToken, rt), s_logged_in)
         \<and> findById (users s_logged_in) (Some (user_id existedUser)) = Some usr
         \<and> refreshToken usr = Some rt
         \<and> status login_ava_response = 200
         \<and> cookies login_ava_response =
             [SetCookie ''accessToken'' (JStr accessToken) \<lparr>httpOnly = True, secure = True\<rparr>,
              SetCookie ''refreshToken'' (JStr rt) \<lparr>httpOnly = True, secure = True\<rparr>]
         \<and> body login_ava_response =
             ApiResponse 200
               (JObj [(''user'', JObj doc), (''accessToken'', JStr accessToken),
                      (''refreshToken'', JStr rt)])
               ''user logged in successfully''
         \<and> doc = [(''_id'', JNum (user_id usr)), (''username'', JStr (username usr)),
                  (''email'', JStr (email usr)), (''fullname'', JStr (fullname usr)),
                  (''avatar'', JStr (avatar usr)), (''coverImage'', JStr (coverImage usr))]
         \<and> ''password'' \<notin> fst ` set doc
         \<and> ''refreshToken'' \<notin> fst ` set doc)"
proof -
  have run: "loginUser example_env login_ava s0 = (Inr login_ava_response, s_logged_in)"
    by (simp add: loginUser_def findOne_or_def isPasswordCorrect_def truthy_def
        generateTokens_def findById_def save_def sanitized_Some options_def ApiResponse_def
        login_ava_def login_ava_response_def s0_def s_logged_in_def ava_def example_env_def)
  from loginUser_success_response [OF run] run show ?thesis
    by blast
qed

section \<open>Refresh\<close>

lemma js_or_truthy: "truthy (js_or a b) \<longleftrightarrow> truthy a \<or> truthy b"
  by (simp add: js_or_def)

text \<open>
  C9, as stated, at a refresh request whose token does not verify: the spec has it fail
  with the invalid-token error, the status-400 error that a verified token without a
  user gets. \<^verbatim>\<open>jwt.verify\<close> is called outside any \<^verbatim>\<open>try\<close>, so what leaves the
  handler is the library's own error: not "Invalid refresh token", and not an
  \<^verbatim>\<open>ApiError\<close> at all, so it carries no status code.
\<close>

theorem refreshAcessToken_verify_counterexample:
  "js_or (cookies_refreshToken refresh_bogus) (body_refreshToken refresh_bogus) = Some ''bogus''
   \<and> jwt_verify example_env ''bogus'' = VerifyThrows
   \<and> fst (refreshAcessToken example_env refresh_bogus s_logged_in) = Inl JsonWebTokenError
   \<and> fst (refreshAcessToken example_env refresh_bogus s_logged_in) \<noteq>
       Inl (ApiError 400 ''Invalid refresh token'')
   \<and> (case fst (refreshAcessToken example_env refresh_bogus s_logged_in) of
         Inl (ApiError c m) \<Rightarrow> False
       | _ \<Rightarrow> True)"
  by (simp add: refreshAcessToken_def js_or_def truthy_def refresh_bogus_def example_env_def)

text \<open>
  C9, amended. A refresh request with no token in the cookie and none in the body fails
  with the validation error (status 400, "Refresh token is required"). With a token
  whose verification fails, it fails with the error \<^verbatim>\<open>jwt.verify\<close> throws, passed on
  as it is: that error is not the invalid-token \<^verbatim>\<open>ApiError\<close>, nor an \<^verbatim>\<open>ApiError\<close>
  of any status. With a token that verifies but whose decoded identity has no user, it
  fails with the invalid-token error of the controller (status 400, "Invalid refresh
  token"). The store is unchanged in all three.
\<close>

theorem refreshAcessToken_rejections:
  "(\<not> truthy (cookies_refreshToken req) \<and> \<not> truthy (body_refreshToken req) \<longrightarrow>
      refreshAcessToken C req s = (Inl (ApiError 400 ''Refresh token is required''), s))
   \<and> (\<forall>tok. js_or (cookies_refreshToken req) (body_refreshToken req) = Some tok \<and> tok \<noteq> []
          \<and> jwt_verify C tok = VerifyThrows \<longrightarrow>
        refreshAcessToken C req s = (Inl JsonWebTokenError, s))
   \<and> (\<forall>tok decoded_id.
          js_or (cookies_refreshToken req) (body_refreshToken req) = Some tok \<and> tok \<noteq> []
          \<and> jwt_verify C tok = Decoded decoded_id
          \<and> findById (users s) decoded_id = None \<longrightarrow>
        refreshAcessToken C req s = (Inl (ApiError 400 ''Invalid refresh token''), s))
   \<and> (\<forall>c m. JsonWebTokenError \<noteq> ApiError c m)"
proof (intro conjI allI impI)
  assume "\<not> truthy (cookies_refreshToken req) \<and> \<not> truthy (body_refreshToken req)"
  then have "\<not> truthy (js_or (cookies_refreshToken req) (body_refreshToken req))"
    by (simp add: js_or_truthy)
  then show "refreshAcessToken C req s = (Inl (ApiError 400 ''Refresh token is required''), s)"
    by (auto simp: refreshAcessToken_def truthy_def split: option.splits)
next
  fix tok
  assume "js_or (cookies_refreshToken req) (body_refreshToken req) = Some tok \<and> tok \<noteq> []
          \<and> jwt_verify C tok = VerifyThrows"
  then show "refreshAcessToken C req s = (Inl JsonWebTokenError, s)"
    by (simp add: refreshAcessToken_def)
next
  fix tok decoded_id
  assume "js_or (cookies_refreshToken req) (body_refreshToken req) = Some tok \<and> tok \<noteq> []
          \<and> jwt_verify C tok = Decoded decoded_id
          \<and> findById (users s) decoded_id = None"
  then show "refreshAcessToken C req s = (Inl (ApiError 400 ''Invalid refresh token''), s)"
    by (simp add: refreshAcessToken_def)
next
  fix c m
  show "JsonWebTokenError \<noteq> ApiError c m"
    by simp
qed

theorem refreshAcessToken_rejections_witness:
  "refreshAcessToken example_env refresh_none s_logged_in =
     (Inl (ApiError 400 ''Refresh token is required''), s_logged_in)
   \<and> refreshAcessToken example_env refresh_bogus s_logged_in =
       (Inl JsonWebTokenError, s_logged_in)
   \<and> refreshAcessToken example_env refresh_ava s_empty =
       (Inl (ApiError 400 ''Invalid refresh token''), s_empty)"
proof -
  have a: "\<not> truthy (cookies_refreshToken refresh_none) \<and> \<not> truthy (body_refreshToken refresh_none)"
    by (simp add: truthy_def refresh_none_def)
  have b: "js_or (cookies_refreshToken refresh_bogus) (body_refreshToken refresh_bogus) =
        Some ''bogus'' \<and> ''bogus'' \<noteq> [] \<and> jwt_verify example_env ''bogus'' = VerifyThrows"
    by (simp add: js_or_def truthy_def refresh_bogus_def example_env_def)
  have c: "js_or (cookies_refreshToken refresh_ava) (body_refreshToken refresh_ava) =
        Some ''rt-ava'' \<and> ''rt-ava'' \<noteq> [] \<and> jwt_verify example_env ''rt-ava'' = Decoded (Some 1)
      \<and> findById (users s_empty) (Some 1) = None"
    by (simp add: js_or_def truthy_def refresh_ava_def example_env_def findById_def s_empty_def)
  from refreshAcessToken_rejections [of refresh_none example_env s_logged_in] a
  have 1: "refreshAcessToken example_env refresh_none s_logged_in =
     (Inl (ApiError 400 ''Refresh token is required''), s_logged_in)"
    by blast
  from refreshAcessToken_rejections [of refresh_bogus example_env s_logged_in] b
  have 2: "refreshAcessToken example_env refresh_bogus s_logged_in =
       (Inl JsonWebTokenError, s_logged_in)"
    by blast
  from refreshAcessToken_rejections [of refresh_ava example_env s_empty] c
  have 3: "refreshAcessToken example_env refresh_ava s_empty =
       (Inl (ApiError 400 ''Invalid refresh token''), s_empty)"
    by blast
  from 1 2 3 show ?thesis by blast
qed

text \<open>
  Whatever the request, a refresh that gets through its checks answers with
  \<^verbatim>\<open>undefined\<close> in both cookies and in both fields of the body: the tokens that
  \<^verbatim>\<open>generateTokens\<close> mints are not awaited. The store is the one that call leaves.
\<close>

theorem refreshAcessToken_success:
  assumes "refreshAcessToken C req s = (Inr resp, s')"
  shows "resp = refresh_response
       \<and> (\<exists>usr. findById (users s) (Some (user_id usr)) = Some usr
              \<and> js_or (cookies_refreshToken req) (body_refreshToken req) = refreshToken usr
              \<and> s' = snd (generateTokens C (user_id usr) s))"
proof -
  from assms obtain tok where
    t: "js_or (cookies_refreshToken req) (body_refreshToken req) = Some tok" "tok \<noteq> []"
    by (auto simp: refreshAcessToken_def Let_def split: option.splits if_splits)
  with assms obtain decoded_id where d: "jwt_verify C tok = Decoded decoded_id"
    by (cases "jwt_verify C tok") (auto simp: refreshAcessToken_def Let_def)
  with t assms obtain usr where u: "findById (users s) decoded_id = Some usr"
    by (cases "findById (users s) decoded_id") (auto simp: refreshAcessToken_def Let_def)
  with t d assms have m: "Some tok = refreshToken usr"
    and r: "resp = refresh_response" "s' = snd (generateTokens C (user_id usr) s)"
    by (auto simp: refreshAcessToken_def Let_def refresh_response_def ApiResponse_def
        options_def split: if_splits)
  from u have "findById (users s) (Some (user_id usr)) = Some usr"
    by (cases decoded_id) (auto simp: findById_def find_Some_iff)
  with t m r show ?thesis by auto
qed

theorem refreshAcessToken_success_witness:
  "refreshAcessToken example_env refresh_ava s_logged_in =
     (Inr refresh_response, \<lparr>users = [ava\<lparr>refreshToken := Some ''rt-ava+''\<rparr>], uploads = []\<rparr>)
   \<and> (\<exists>usr. findById (users s_logged_in) (Some (user_id usr)) = Some usr
          \<and> js_or (cookies_refreshToken refresh_ava) (body_refreshToken refresh_ava) =
              refreshToken usr
          \<and> \<lparr>users = [ava\<lparr>refreshToken := Some ''rt-ava+''\<rparr>], uploads = []\<rparr> =
              snd (generateTokens example_env (user_id usr) s_logged_in))"
proof -
  have run: "refreshAcessToken example_env refresh_ava s_logged_in =
     (Inr refresh_response, \<lparr>users = [ava\<lparr>refreshToken := Some ''rt-ava+''\<rparr>], uploads = []\<rparr>)"
    by (simp add: refreshAcessToken_def generateTokens_def js_or_def truthy_def findById_def
        save_def ApiResponse_def options_def refresh_response_def refresh_ava_def
        s_logged_in_def ava_def example_env_def)
  from refreshAcessToken_success [OF run] run show ?thesis
    by blast
qed

text \<open>
  C2, on the code: a refresh whose token verifies, identifies \<open>ava\<close> and equals the
  refresh token her record holds. The answer has status 200, but both cookies are set to
  \<^verbatim>\<open>undefined\<close> and the body holds \<^verbatim>\<open>undefined\<close> for both tokens; meanwhile the
  record has moved on to a new refresh token, \<open>rt-ava+\<close>, that the answer does not
  carry. \<^verbatim>\<open>loginUser\<close> awaits the same call and returns its tokens.
\<close>

theorem refreshAcessToken_returns_no_tokens:
  "js_or (cookies_refreshToken refresh_ava) (body_refreshToken refresh_ava) = Some ''rt-ava''
   \<and> jwt_verify example_env ''rt-ava'' = Decoded (Some 1)
   \<and> findById (users s_logged_in) (Some 1) = Some (ava\<lparr>refreshToken := Some ''rt-ava''\<rparr>)
   \<and> generateTokens example_env 1 s_logged_in =
       (Inr (''at-ava'', ''rt-ava+''),
        \<lparr>users = [ava\<lparr>refreshToken := Some ''rt-ava+''\<rparr>], uploads = []\<rparr>)
   \<and> refreshAcessToken example_env refresh_ava s_logged_in =
       (Inr \<lparr>status = 200,
             cookies = [SetCookie ''accessToken'' JUndefined \<lparr>httpOnly = True, secure = True\<rparr>,
                        SetCookie ''refreshToken'' JUndefined \<lparr>httpOnly = True, secure = True\<rparr>],
             body = \<lparr>statusCode = 200,
                     data = JObj [(''accessToken'', JUndefined), (''refreshToken'', JUndefined)],
                     message = ''Access Token refreshed''\<rparr>\<rparr>,
        \<lparr>users = [ava\<lparr>refreshToken := Some ''rt-ava+''\<rparr>], uploads = []\<rparr>)"
  by (simp add: refreshAcessToken_def generateTokens_def js_or_def truthy_def findById_def
      save_def ApiResponse_def options_def refresh_ava_def s_logged_in_def ava_def
      example_env_def)

section \<open>Logout\<close>

lemma findById_set_refreshToken:
  "findById (map (\<lambda>u. if user_id u = i then u\<lparr>refreshToken := v\<rparr> else u) us) (Some i) =
     map_option (\<lambda>u. u\<lparr>refreshToken := v\<rparr>) (findById us (Some i))"
  by (induction us) (auto simp: findById_def)

text \<open>When the mapper drops \<^verbatim>\<open>undefined\<close> from updates, the update of
  \<^verbatim>\<open>logoutUser\<close> is empty and the store stays as it was.\<close>

lemma logoutUser_omitUndefined:
  "omitUndefined C \<Longrightarrow> snd (logoutUser C req_user_id s) = s"
  by (simp add: logoutUser_def findByIdAndUpdate_set_refreshToken_def)

text \<open>
  C1, on the code, with a mapper that drops \<^verbatim>\<open>undefined\<close> from updates. \<open>ava\<close> logs
  in and holds the refresh token \<open>rt-ava\<close>; she logs out; the store is the same as
  before the logout, her record still holds \<open>rt-ava\<close>; a refresh presenting
  \<open>rt-ava\<close> then passes the comparison with the stored token and is answered with
  status 200, not with "refresh token is expired or used".
\<close>

theorem logoutUser_keeps_refresh_token:
  "omitUndefined example_env
   \<and> loginUser example_env login_ava s0 = (Inr login_ava_response, s_logged_in)
   \<and> snd (logoutUser example_env 1 s_logged_in) = s_logged_in
   \<and> map_option refreshToken
        (findById (users (snd (logoutUser example_env 1 s_logged_in))) (Some 1)) =
       Some (Some ''rt-ava'')
   \<and> fst (refreshAcessToken example_env refresh_ava
            (snd (logoutUser example_env 1 s_logged_in))) =
       Inr refresh_response"
  by (simp add: logoutUser_def findByIdAndUpdate_set_refreshToken_def
      loginUser_def findOne_or_def isPasswordCorrect_def truthy_def
      generateTokens_def findById_def save_def sanitized_Some options_def ApiResponse_def
      login_ava_def login_ava_response_def refreshAcessToken_def js_or_def refresh_ava_def
      refresh_response_def s0_def s_logged_in_def ava_def example_env_def)

text \<open>
  With a mapper that writes \<^verbatim>\<open>undefined\<close> as \<^verbatim>\<open>null\<close>, logging out does clear the
  stored refresh token of an existing user, and a later refresh presenting any token
  that verifies to that user fails the comparison with the stored token: status 400,
  "refresh token is expired or used".
\<close>

theorem logoutUser_null_write_then_refresh:
  assumes "\<not> omitUndefined C"
    and "findById (users s) (Some req_user_id) = Some usr"
    and "js_or (cookies_refreshToken req) (body_refreshToken req) = Some tok"
    and "tok \<noteq> []"
    and "jwt_verify C' tok = Decoded (Some req_user_id)"
  shows "findById (users (snd (logoutUser C req_user_id s))) (Some req_user_id) =
           Some (usr\<lparr>refreshToken := None\<rparr>)
       \<and> refreshAcessToken C' req (snd (logoutUser C req_user_id s)) =
           (Inl (ApiError 400 ''refresh token is expired or used''),
            snd (logoutUser C req_user_id s))"
proof -
  from assms(1,2)
  have f: "findById (users (snd (logoutUser C req_user_id s))) (Some req_user_id) =
           Some (usr\<lparr>refreshToken := None\<rparr>)"
    by (simp add: logoutUser_def findByIdAndUpdate_set_refreshToken_def
        findById_set_refreshToken)
  with assms(3,4,5) show ?thesis
    by (simp add: refreshAcessToken_def)
qed

theorem logoutUser_null_write_then_refresh_witness:
  "\<not> omitUndefined legacy_env
   \<and> findById (users (snd (logoutUser legacy_env 1 s_logged_in))) (Some 1) = Some ava
   \<and> refreshAcessToken legacy_env refresh_ava (snd (logoutUser legacy_env 1 s_logged_in)) =
       (Inl (ApiError 400 ''refresh token is expired or used''), s0)"
proof -
  have a: "\<not> omitUndefined legacy_env"
    by (simp add: legacy_env_def example_env_def)
  have b: "findById (users s_logged_in) (Some 1) = Some (ava\<lparr>refreshToken := Some ''rt-ava''\<rparr>)"
    by (simp add: findById_def s_logged_in_def ava_def)
  have c: "js_or (cookies_refreshToken refresh_ava) (body_refreshToken refresh_ava) =
      Some ''rt-ava''"
    by (simp add: js_or_def truthy_def refresh_ava_def)
  have d: "''rt-ava'' \<noteq> []"
    by simp
  have e: "jwt_verify legacy_env ''rt-ava'' = Decoded (Some 1)"
    by (simp add: legacy_env_def example_env_def)
  have s: "snd (logoutUser legacy_env 1 s_logged_in) = s0"
    by (simp add: logoutUser_def findByIdAndUpdate_set_refreshToken_def legacy_env_def
        example_env_def s_logged_in_def s0_def ava_def)
  have u: "ava\<lparr>refreshToken := Some ''rt-ava'', refreshToken := None\<rparr> = ava"
    by (simp add: ava_def)
  from logoutUser_null_write_then_refresh [OF a b c d e] a show ?thesis
    unfolding s u by blast
qed

section \<open>Password change\<close>

text \<open>
  C7, as stated, at two requests whose new password and confirmation match and whose
  current password is correct. With a new password of blanks the handler fails with
  "New password is required,cannot be empty" and the stored hash is not updated. With a
  new password equal to the current one the change succeeds and the old password still
  verifies.
\<close>

theorem changeCurrentPassword_counterexample:
  "cp_newPassword change_blank = cp_confirmPassword change_blank
   \<and> isPasswordCorrect example_env ava (cp_password change_blank) = Inr True
   \<and> changeCurrentPassword example_env change_blank s0 =
       (Inl (ApiError 400 ''New password is required,cannot be empty''), s0)
   \<and> cp_newPassword change_same = cp_confirmPassword change_same
   \<and> isPasswordCorrect example_env ava (cp_password change_same) = Inr True
   \<and> fst (changeCurrentPassword example_env change_same s0) = Inr change_response
   \<and> map_option (\<lambda>u. isPasswordCorrect example_env u (Some ''p1''))
        (findById (users (snd (changeCurrentPassword example_env change_same s0))) (Some 1)) =
       Some (Inr True)"
  by (simp add: changeCurrentPassword_def isPasswordCorrect_def findById_def save_def
      trim_def is_ws_def ApiResponse_def change_blank_def change_same_def change_mismatch_def
      change_response_def s0_def ava_def example_env_def)

text \<open>
  C7, amended. A password change whose new password and confirmation differ fails with
  the validation error (status 400, "New password and confirm password do not match")
  and leaves the store, so the stored hash, as it was. A change whose new password and
  confirmation are the same string, not blank after trimming, whose user exists, whose
  current password verifies and whose write is accepted, answers with status 200 and
  the user's record then holds the hash of the new password. Under the contract of the
  hash the new password verifies against it, and the old password no longer does
  provided it differs from the new one.
\<close>

theorem changeCurrentPassword_contract:
  "(cp_newPassword req \<noteq> cp_confirmPassword req \<longrightarrow>
      changeCurrentPassword C req s =
        (Inl (ApiError 400 ''New password and confirm password do not match''), s))
   \<and> (\<forall>newPassword pw usr.
        cp_newPassword req = Some newPassword \<and> cp_confirmPassword req = Some newPassword
        \<and> trim newPassword \<noteq> []
        \<and> findById (users s) (cp_user_id req) = Some usr
        \<and> cp_password req = Some pw \<and> bcrypt_compare C pw (password usr)
        \<and> \<not> save_fails C (usr\<lparr>password := bcrypt_hash C newPassword\<rparr>) \<longrightarrow>
        (\<exists>resp s'.
           changeCurrentPassword C req s = (Inr resp, s') \<and> status resp = 200
           \<and> findById (users s') (cp_user_id req) =
               Some (usr\<lparr>password := bcrypt_hash C newPassword\<rparr>)
           \<and> (hash_correct C \<longrightarrow>
                isPasswordCorrect C (usr\<lparr>password := bcrypt_hash C newPassword\<rparr>)
                  (Some newPassword) = Inr True
                \<and> (pw \<noteq> newPassword \<longrightarrow>
                     isPasswordCorrect C (usr\<lparr>password := bcrypt_hash C newPassword\<rparr>)
                       (Some pw) = Inr False))))"
proof (intro conjI allI impI)
  assume "cp_newPassword req \<noteq> cp_confirmPassword req"
  then show "changeCurrentPassword C req s =
        (Inl (ApiError 400 ''New password and confirm password do not match''), s)"
    by (simp add: changeCurrentPassword_def)
next
  fix newPassword pw usr
  assume h: "cp_newPassword req = Some newPassword \<and> cp_confirmPassword req = Some newPassword
        \<and> trim newPassword \<noteq> []
        \<and> findById (users s) (cp_user_id req) = Some usr
        \<and> cp_password req = Some pw \<and> bcrypt_compare C pw (password usr)
        \<and> \<not> save_fails C (usr\<lparr>password := bcrypt_hash C newPassword\<rparr>)"
  let ?usr' = "usr\<lparr>password := bcrypt_hash C newPassword\<rparr>"
  from h obtain k where k: "cp_user_id req = Some k"
    by (cases "cp_user_id req") (auto simp: findById_def)
  with h have "user_id usr = k"
    by (auto dest: findById_user_id)
  with h k have f: "findById (save (users s) ?usr') (cp_user_id req) = Some ?usr'"
    using findById_save [of "users s" ?usr'] by simp
  from h have r: "changeCurrentPassword C req s =
      (Inr \<lparr>status = 200, cookies = [],
            body = ApiResponse 200 (JObj []) ''Password changed successfully''\<rparr>,
       s\<lparr>users := save (users s) ?usr'\<rparr>)"
    by (simp add: changeCurrentPassword_def isPasswordCorrect_def)
  have c: "hash_correct C \<longrightarrow>
      isPasswordCorrect C ?usr' (Some newPassword) = Inr True
      \<and> (pw \<noteq> newPassword \<longrightarrow> isPasswordCorrect C ?usr' (Some pw) = Inr False)"
    by (simp add: hash_correct_def isPasswordCorrect_def)
  from r f c show "\<exists>resp s'.
           changeCurrentPassword C req s = (Inr resp, s') \<and> status resp = 200
           \<and> findById (users s') (cp_user_id req) = Some ?usr'
           \<and> (hash_correct C \<longrightarrow>
                isPasswordCorrect C ?usr' (Some newPassword) = Inr True
                \<and> (pw \<noteq> newPassword \<longrightarrow> isPasswordCorrect C ?usr' (Some pw) = Inr False))"
    by simp
qed

theorem changeCurrentPassword_contract_witness:
  "changeCurrentPassword example_env change_mismatch s0 =
     (Inl (ApiError 400 ''New password and confirm password do not match''), s0)
   \<and> hash_correct example_env
   \<and> (\<exists>resp s'.
         changeCurrentPassword example_env change_ok s0 = (Inr resp, s') \<and> status resp = 200
         \<and> findById (users s') (cp_user_id change_ok) = Some (ava\<lparr>password := ''$2b$p2''\<rparr>)
         \<and> isPasswordCorrect example_env (ava\<lparr>password := ''$2b$p2''\<rparr>) (Some ''p2'') = Inr True
         \<and> isPasswordCorrect example_env (ava\<lparr>password := ''$2b$p2''\<rparr>) (Some ''p1'') = Inr False)"
proof -
  have m: "cp_newPassword change_mismatch \<noteq> cp_confirmPassword change_mismatch"
    by (simp add: change_mismatch_def)
  have hc: "hash_correct example_env"
    by (auto simp: hash_correct_def example_env_def)
  have b: "bcrypt_hash example_env ''p2'' = ''$2b$p2''"
    by (simp add: example_env_def)
  have h: "cp_newPassword change_ok = Some ''p2'' \<and> cp_confirmPassword change_ok = Some ''p2''
        \<and> trim ''p2'' \<noteq> []
        \<and> findById (users s0) (cp_user_id change_ok) = Some ava
        \<and> cp_password change_ok = Some ''p1'' \<and> bcrypt_compare example_env ''p1'' (password ava)
        \<and> \<not> save_fails example_env (ava\<lparr>password := bcrypt_hash example_env ''p2''\<rparr>)"
    by (simp add: change_ok_def change_mismatch_def trim_def is_ws_def findById_def s0_def
        ava_def example_env_def)
  have d: "''p1'' \<noteq> ''p2''"
    by simp
  from changeCurrentPassword_contract [of change_mismatch example_env s0] m
  have 1: "changeCurrentPassword example_env change_mismatch s0 =
     (Inl (ApiError 400 ''New password and confirm password do not match''), s0)"
    by blast
  from changeCurrentPassword_contract [of change_ok example_env s0] h hc d
  have 2: "\<exists>resp s'.
         changeCurrentPassword example_env change_ok s0 = (Inr resp, s') \<and> status resp = 200
         \<and> findById (users s') (cp_user_id change_ok) =
             Some (ava\<lparr>password := bcrypt_hash example_env ''p2''\<rparr>)
         \<and> isPasswordCorrect example_env (ava\<lparr>password := bcrypt_hash example_env ''p2''\<rparr>)
             (Some ''p2'') = Inr True
         \<and> isPasswordCorrect example_env (ava\<lparr>password := bcrypt_hash example_env ''p2''\<rparr>)
             (Some ''p1'') = Inr False"
    by blast
  from 1 2 hc show ?thesis unfolding b by blast
qed

section \<open>Register: the uploads\<close>

lemma fold_max_ge: "(a::nat) \<le> fold max xs a"
proof (induction xs arbitrary: a)
  case Nil
  show ?case by simp
next
  case (Cons x xs)
  have "a \<le> max x a" by simp
  also have "\<dots> \<le> fold max xs (max x a)" by (rule Cons.IH)
  finally show ?case by simp
qed

lemma fold_max_member: "x \<in> set xs \<Longrightarrow> (x::nat) \<le> fold max xs a"
proof (induction xs arbitrary: a)
  case Nil
  then show ?case by simp
next
  case (Cons y ys)
  show ?case
  proof (cases "x = y")
    case True
    have "x \<le> max y a" using True by simp
    also have "\<dots> \<le> fold max ys (max y a)" by (rule fold_max_ge)
    finally show ?thesis by simp
  next
    case False
    with Cons.prems have "x \<in> set ys" by simp
    then show ?thesis using Cons.IH by simp
  qed
qed

lemma fresh_id_new: "u \<in> set us \<Longrightarrow> user_id u \<noteq> fresh_id us"
proof
  assume m: "u \<in> set us" and e: "user_id u = fresh_id us"
  from m have "user_id u \<in> set (map user_id us)"
    by simp
  then have "user_id u \<le> fold max (map user_id us) 0"
    by (rule fold_max_member)
  with e show False by (simp add: fresh_id_def)
qed

lemma findById_append_new:
  assumes "\<forall>v\<in>set us. user_id v \<noteq> user_id u"
  shows "findById (us @ [u]) (Some (user_id u)) = Some u"
  using assms by (induction us) (auto simp: findById_def)

lemma create_success:
  assumes "nu_email n = Some e" and "nu_password n = Some p" and "nu_fullname n = Some f"
    and "\<not> list_ex (\<lambda>u. username u = nu_username n \<or> email u = e) us"
    and "\<forall>u. \<not> save_fails C u"
  shows "\<exists>u. create C us n = Inr (u, us @ [u])
           \<and> username u = nu_username n \<and> email u = e \<and> password u = bcrypt_hash C p
           \<and> fullname u = f \<and> avatar u = nu_avatar n \<and> coverImage u = nu_coverImage n
           \<and> refreshToken u = None
           \<and> findById (us @ [u]) (Some (user_id u)) = Some u"
proof -
  let ?u = "\<lparr>user_id = fresh_id us, username = nu_username n, email = e,
             password = bcrypt_hash C p, fullname = f, avatar = nu_avatar n,
             coverImage = nu_coverImage n, refreshToken = None\<rparr>"
  from assms have c: "create C us n = Inr (?u, us @ [?u])"
    by (simp add: create_def Let_def)
  have "\<forall>v\<in>set us. user_id v \<noteq> user_id ?u"
    by (simp add: fresh_id_new)
  then have "findById (us @ [?u]) (Some (user_id ?u)) = Some ?u"
    by (rule findById_append_new)
  with c show ?thesis by simp
qed

text \<open>\<^verbatim>\<open>toLowerCase\<close> on a name that starts with a Latin-1 capital (0xC9, then
  \<open>DITH\<close>): the capital moves to 0xE9 with the ASCII letters; the multiplication sign
  0xD7 and the sharp s 0xDF stay.\<close>

lemma toLowerCase_latin1:
  "toLowerCase [CHR 0xC9, CHR ''D'', CHR ''I'', CHR ''T'', CHR ''H''] =
     [CHR 0xE9, CHR ''d'', CHR ''i'', CHR ''t'', CHR ''h'']
   \<and> toLowerCase [CHR 0xD7, CHR 0xDF, CHR 0xC0, CHR 0xDE, CHR ''@'', CHR ''[''] =
       [CHR 0xD7, CHR 0xDF, CHR 0xE0, CHR 0xFE, CHR ''@'', CHR ''['']"
  by code_simp

text \<open>
  C8. For a registration that passes the field guard and the duplicate check and brings
  an avatar file: when the upload of the avatar gives no result the handler fails with
  the upload error (status 500, "Failed to upload avatar") and no user is created; when
  the avatar is uploaded and the upload of the cover image gives no result, the
  registration still succeeds with status 201 for a request the store accepts, and the
  record created holds the avatar's url and the empty string as \<^verbatim>\<open>coverImage\<close>.
\<close>

theorem registerUser_uploads:
  assumes "\<not> some_blank [reg_username req, reg_email req, reg_password req, reg_fullname req]"
    and "findOne_or (users s) (reg_username req) (reg_email req) = None"
    and "truthy (avatarLocalPath req)"
  shows "(uploadOnCloudinary C (avatarLocalPath req) = None \<longrightarrow>
            registerUser C req s =
              (Inl (ApiError 500 ''Failed to upload avatar''),
               s\<lparr>uploads := uploads s @ [avatarLocalPath req, coverImageLocalPath req]\<rparr>))
       \<and> (\<forall>av un e p f.
            uploadOnCloudinary C (avatarLocalPath req) = Some av
            \<and> uploadOnCloudinary C (coverImageLocalPath req) = None
            \<and> reg_username req = Some un \<and> reg_email req = Some e
            \<and> reg_password req = Some p \<and> reg_fullname req = Some f
            \<and> \<not> list_ex (\<lambda>u. username u = toLowerCase un \<or> email u = e) (users s)
            \<and> (\<forall>u. \<not> save_fails C u) \<longrightarrow>
            (\<exists>resp u.
               registerUser C req s =
                 (Inr resp,
                  \<lparr>users = users s @ [u],
                   uploads = uploads s @ [avatarLocalPath req, coverImageLocalPath req]\<rparr>)
               \<and> status resp = 201
               \<and> coverImage u = [] \<and> avatar u = url av \<and> username u = toLowerCase un))"
proof (intro conjI allI impI)
  assume "uploadOnCloudinary C (avatarLocalPath req) = None"
  with assms show "registerUser C req s =
              (Inl (ApiError 500 ''Failed to upload avatar''),
               s\<lparr>uploads := uploads s @ [avatarLocalPath req, coverImageLocalPath req]\<rparr>)"
    by (simp add: registerUser_def Let_def)
next
  fix av un e p f
  assume h: "uploadOnCloudinary C (avatarLocalPath req) = Some av
            \<and> uploadOnCloudinary C (coverImageLocalPath req) = None
            \<and> reg_username req = Some un \<and> reg_email req = Some e
            \<and> reg_password req = Some p \<and> reg_fullname req = Some f
            \<and> \<not> list_ex (\<lambda>u. username u = toLowerCase un \<or> email u = e) (users s)
            \<and> (\<forall>u. \<not> save_fails C u)"
  let ?n = "\<lparr>nu_email = reg_email req, nu_password = reg_password req,
             nu_fullname = reg_fullname req, nu_username = toLowerCase un, nu_avatar = url av,
             nu_coverImage = cover_url (uploadOnCloudinary C (coverImageLocalPath req))\<rparr>"
  from h have "\<exists>u. create C (users s) ?n = Inr (u, users s @ [u])
           \<and> username u = nu_username ?n \<and> email u = e \<and> password u = bcrypt_hash C p
           \<and> fullname u = f \<and> avatar u = nu_avatar ?n \<and> coverImage u = nu_coverImage ?n
           \<and> refreshToken u = None
           \<and> findById (users s @ [u]) (Some (user_id u)) = Some u"
    by (intro create_success) simp_all
  then obtain u where c: "create C (users s) ?n = Inr (u, users s @ [u])"
    and u: "username u = toLowerCase un" "avatar u = url av"
      "coverImage u = cover_url (uploadOnCloudinary C (coverImageLocalPath req))"
    and f: "findById (users s @ [u]) (Some (user_id u)) = Some u"
    by auto
  from h u have cv: "coverImage u = []"
    by (simp add: cover_url_def)
  from assms h c f have "registerUser C req s =
      (Inr \<lparr>status = 201, cookies = [],
            body = ApiResponse 200 (sanitized (Some u)) ''User created successfully''\<rparr>,
       \<lparr>users = users s @ [u],
        uploads = uploads s @ [avatarLocalPath req, coverImageLocalPath req]\<rparr>)"
    by (simp add: registerUser_def Let_def)
  with u cv show "\<exists>resp u.
               registerUser C req s =
                 (Inr resp,
                  \<lparr>users = users s @ [u],
                   uploads = uploads s @ [avatarLocalPath req, coverImageLocalPath req]\<rparr>)
               \<and> status resp = 201
               \<and> coverImage u = [] \<and> avatar u = url av \<and> username u = toLowerCase un"
    by simp
qed

theorem registerUser_uploads_witness:
  "registerUser offline_env register_bob_cover s0 =
     (Inl (ApiError 500 ''Failed to upload avatar''),
      \<lparr>users = [ava], uploads = [Some ''/tmp/b.png'', Some ''/tmp/c.png'']\<rparr>)
   \<and> uploadOnCloudinary cover_fails_env (coverImageLocalPath register_bob_cover) = None
   \<and> (\<exists>resp u.
         registerUser cover_fails_env register_bob_cover s0 =
           (Inr resp, \<lparr>users = [ava, u], uploads = [Some ''/tmp/b.png'', Some ''/tmp/c.png'']\<rparr>)
         \<and> status resp = 201
         \<and> coverImage u = [] \<and> avatar u = ''https://media/tmp/b.png'' \<and> username u = ''bob'')"
proof -
  have g: "\<not> some_blank [reg_username register_bob_cover, reg_email register_bob_cover,
      reg_password register_bob_cover, reg_fullname register_bob_cover]"
    by (simp add: some_blank_def trim_def is_ws_def register_bob_cover_def register_bob_def)
  have n: "findOne_or (users s0) (reg_username register_bob_cover)
      (reg_email register_bob_cover) = None"
    by (simp add: findOne_or_def register_bob_cover_def register_bob_def s0_def ava_def)
  have p: "avatarLocalPath register_bob_cover = Some ''/tmp/b.png''"
    "coverImageLocalPath register_bob_cover = Some ''/tmp/c.png''"
    by (simp_all add: avatarLocalPath_def coverImageLocalPath_def first_path_def
        register_bob_cover_def register_bob_def)
  have t: "truthy (avatarLocalPath register_bob_cover)"
    by (simp add: p truthy_def)
  have o: "uploadOnCloudinary offline_env (avatarLocalPath register_bob_cover) = None"
    by (simp add: offline_env_def)
  have l: "toLowerCase ''Bob'' = ''bob''"
    by code_simp
  have h1: "uploadOnCloudinary cover_fails_env (avatarLocalPath register_bob_cover) =
        Some \<lparr>url = ''https://media/tmp/b.png''\<rparr>
      \<and> uploadOnCloudinary cover_fails_env (coverImageLocalPath register_bob_cover) = None"
    unfolding p by (simp add: cover_fails_env_def)
  have h2: "reg_username register_bob_cover = Some ''Bob''
      \<and> reg_email register_bob_cover = Some ''b@x.com''
      \<and> reg_password register_bob_cover = Some ''pw''
      \<and> reg_fullname register_bob_cover = Some ''Bob B''"
    by (simp add: register_bob_cover_def register_bob_def)
  have h3: "\<not> list_ex (\<lambda>u. username u = toLowerCase ''Bob'' \<or> email u = ''b@x.com'') (users s0)"
    unfolding l by (simp add: s0_def ava_def)
  have h4: "\<forall>u. \<not> save_fails cover_fails_env u"
    by (simp add: cover_fails_env_def example_env_def)
  from h1 h2 h3 h4
  have h: "uploadOnCloudinary cover_fails_env (avatarLocalPath register_bob_cover) =
        Some \<lparr>url = ''https://media/tmp/b.png''\<rparr>
      \<and> uploadOnCloudinary cover_fails_env (coverImageLocalPath register_bob_cover) = None
      \<and> reg_username register_bob_cover = Some ''Bob''
      \<and> reg_email register_bob_cover = Some ''b@x.com''
      \<and> reg_password register_bob_cover = Some ''pw''
      \<and> reg_fullname register_bob_cover = Some ''Bob B''
      \<and> \<not> list_ex (\<lambda>u. username u = toLowerCase ''Bob'' \<or> email u = ''b@x.com'') (users s0)
      \<and> (\<forall>u. \<not> save_fails cover_fails_env u)"
    by blast
  from registerUser_uploads [OF g n t, of offline_env] o
  have 1: "registerUser offline_env register_bob_cover s0 =
     (Inl (ApiError 500 ''Failed to upload avatar''),
      s0\<lparr>uploads := uploads s0 @ [avatarLocalPath register_bob_cover,
                                   coverImageLocalPath register_bob_cover]\<rparr>)"
    by blast
  from registerUser_uploads [OF g n t, of cover_fails_env] h
  have 2: "\<exists>resp u.
         registerUser cover_fails_env register_bob_cover s0 =
           (Inr resp,
            \<lparr>users = users s0 @ [u],
             uploads = uploads s0 @ [avatarLocalPath register_bob_cover,
                                     coverImageLocalPath register_bob_cover]\<rparr>)
         \<and> status resp = 201
         \<and> coverImage u = [] \<and> avatar u = url \<lparr>url = ''https://media/tmp/b.png''\<rparr>
         \<and> username u = toLowerCase ''Bob''"
    by blast
  from 1 2 h1 show ?thesis
    unfolding p l by (simp add: s0_def)
qed

end
